theory Spec2Isabelle
  imports Complex_Main
begin

section \<open>Data model\<close>

text \<open>
  The planner of \<^verbatim>\<open>src/main.cpp\<close> works on C++ \<^verbatim>\<open>double\<close> and \<^verbatim>\<open>int\<close> values.
  Doubles are modelled as exact reals: the rounding, overflow and underflow of double
  arithmetic are outside this model, and the statements below are about the arithmetic
  the code writes, carried out exactly.  No statement rests on which values of
  \<^verbatim>\<open>ref_vel\<close> a run reaches by repeated steps of 0.224, since those sums are rounded in
  the code.  Two places are modelled with their IEEE meaning: the narrowing of the
  lateral offset to a \<^verbatim>\<open>float\<close> in line 41, and the division by a zero divisor in line
  328, whose quotient is infinite.

  One entry of \<^verbatim>\<open>sensor_fusion\<close> is a vector of seven doubles.  The record below names
  the seven positions: index 0 is \<open>veh_id\<close>, 1 is \<open>veh_x\<close>, 2 is \<open>veh_y\<close>, 3 is \<open>veh_vx\<close>,
  4 is \<open>veh_vy\<close>, 5 is \<open>veh_s\<close> and 6 is \<open>veh_d\<close>.  The empty vector, which \<^verbatim>\<open>get_vehicle\<close>
  returns when it found nothing and which \<^verbatim>\<open>behavior\<close> tests with \<^verbatim>\<open>empty()\<close>, is \<open>None\<close>.
\<close>

record vehicle =
  veh_id :: real
  veh_x :: real
  veh_y :: real
  veh_vx :: real
  veh_vy :: real
  veh_s :: real
  veh_d :: real

section \<open>Single precision values\<close>

text \<open>
  A value of an IEEE format that is not a NaN: a finite number or an infinity.
\<close>

datatype ieee = Finite real | PlusInf | MinusInf

text \<open>Rounding to the nearest integer, ties to the even one.\<close>

definition round_half_even :: "real \<Rightarrow> int" where
  "round_half_even x =
     (let f = \<lfloor>x\<rfloor>
      in if x - real_of_int f < 1 / 2 then f
         else if x - real_of_int f > 1 / 2 then f + 1
         else if even f then f else f + 1)"

text \<open>
  The binade of a magnitude \<open>a\<close> in single precision is the largest power of two not
  above \<open>a\<close>, kept between \<open>1 / 2 ^ 126\<close> (below it the numbers are subnormal) and
  \<open>2 ^ 127\<close>.  \<open>binade_up\<close> doubles a power of two at most 127 times, \<open>binade_down\<close>
  halves it at most 126 times.  A \<^verbatim>\<open>float\<close> has 24 significant bits, so the spacing of
  the floats in a binade is the binade divided by \<open>2 ^ 23\<close>, and \<open>float_round\<close> is the
  multiple of that spacing nearest to \<open>x\<close>, ties to the even multiple.
\<close>

fun binade_up :: "nat \<Rightarrow> real \<Rightarrow> real \<Rightarrow> real" where
  "binade_up 0 p a = p"
| "binade_up (Suc n) p a = (if a < 2 * p then p else binade_up n (2 * p) a)"

fun binade_down :: "nat \<Rightarrow> real \<Rightarrow> real \<Rightarrow> real" where
  "binade_down 0 p a = p"
| "binade_down (Suc n) p a = (if p \<le> a then p else binade_down n (p / 2) a)"

definition float_binade :: "real \<Rightarrow> real" where
  "float_binade a = (if 1 \<le> a then binade_up 127 1 a else binade_down 126 1 a)"

definition float_round :: "real \<Rightarrow> real" where
  "float_round x =
     (let ulp = float_binade \<bar>x\<bar> / 2 ^ 23
      in real_of_int (round_half_even (x / ulp)) * ulp)"

text \<open>
  The conversion of a \<^verbatim>\<open>double\<close> to a \<^verbatim>\<open>float\<close>: a rounded value of magnitude \<open>2 ^ 128\<close>
  or more is an infinity.  The conversion of an \<^verbatim>\<open>int\<close> to a \<^verbatim>\<open>float\<close>, which the comparison
  of a \<^verbatim>\<open>float\<close> with an \<^verbatim>\<open>int\<close> applies to the \<^verbatim>\<open>int\<close>, cannot overflow.
\<close>

definition float_of_double :: "real \<Rightarrow> ieee" where
  "float_of_double x =
     (let r = float_round x
      in if r \<ge> 2 ^ 128 then PlusInf else if r \<le> - (2 ^ 128) then MinusInf else Finite r)"

definition float_of_int :: "int \<Rightarrow> real" where
  "float_of_int n = float_round (real_of_int n)"

fun ieee_less :: "ieee \<Rightarrow> real \<Rightarrow> bool" where
  "ieee_less (Finite x) b = (x < b)"
| "ieee_less PlusInf b = False"
| "ieee_less MinusInf b = True"

fun ieee_greater :: "ieee \<Rightarrow> real \<Rightarrow> bool" where
  "ieee_greater (Finite x) b = (x > b)"
| "ieee_greater PlusInf b = True"
| "ieee_greater MinusInf b = False"

section \<open>Traffic snapshot: \<^verbatim>\<open>get_vehicle_speed\<close>, \<^verbatim>\<open>get_vehicle_dist\<close>, \<^verbatim>\<open>get_vehicle\<close>\<close>

definition get_vehicle_speed :: "vehicle \<Rightarrow> real" where
  "get_vehicle_speed vehicle = sqrt (veh_vx vehicle * veh_vx vehicle + veh_vy vehicle * veh_vy vehicle)"

definition get_vehicle_dist :: "vehicle \<Rightarrow> real \<Rightarrow> int \<Rightarrow> real" where
  "get_vehicle_dist vehicle s prev_size =
     (veh_s vehicle + real_of_int prev_size * 0.02 * get_vehicle_speed vehicle) - s"

text \<open>
  The loop of \<^verbatim>\<open>get_vehicle\<close> (lines 40 to 55) walks \<^verbatim>\<open>sensor_fusion\<close> in order and pushes
  the entries that pass the lane test and one of the two range tests.  Line 41 narrows
  \<^verbatim>\<open>sensor_fusion[i][6]\<close> to the \<^verbatim>\<open>float\<close> \<open>d\<close>, and line 42 compares \<open>d\<close> with two \<^verbatim>\<open>int\<close>
  expressions, which the comparison converts to \<^verbatim>\<open>float\<close>.  The \<^verbatim>\<open>int\<close> expressions are
  modelled on unbounded integers: they are those of the code as long as
  \<open>4 * lane\<close>, \<open>2 + 4 * lane + 2\<close> and \<open>2 + 4 * lane - 2\<close> fit into 32 bits, which
  \<open>lane_in_range\<close> says; beyond that the code overflows a signed integer and has no
  defined behaviour.
\<close>

definition lane_in_range :: "int \<Rightarrow> bool" where
  "lane_in_range lane = (- (2 ^ 31) \<le> 4 * lane \<and> 2 + 4 * lane + 2 < 2 ^ 31)"

fun found_vehicles :: "real \<Rightarrow> int \<Rightarrow> vehicle list \<Rightarrow> int \<Rightarrow> real \<Rightarrow> vehicle list" where
  "found_vehicles s lane [] prev_size buffer = []"
| "found_vehicles s lane (v # sensor_fusion) prev_size buffer =
     (let d = float_of_double (veh_d v);
          rest = found_vehicles s lane sensor_fusion prev_size buffer
      in if ieee_less d (float_of_int (2 + 4 * lane + 2)) \<and>
            ieee_greater d (float_of_int (2 + 4 * lane - 2)) then
           (let check_dist = get_vehicle_dist v s prev_size
            in if buffer \<ge> 0 \<and> check_dist > 0 \<and> check_dist < buffer then v # rest
               else if buffer < 0 \<and> check_dist < 0 \<and> check_dist > buffer then v # rest
               else rest)
         else rest)"

text \<open>
  \<^verbatim>\<open>std::sort\<close> with the comparator \<^verbatim>\<open>veh1[5] < veh2[5]\<close> (ahead) or \<^verbatim>\<open>veh1[5] > veh2[5]\<close> (behind)
  is modelled by the library's \<open>sort_key\<close> on \<open>veh_s\<close>, respectively on its negation.
  C++ leaves the order of entries with equal keys open; the theorems about \<open>get_vehicle\<close>
  speak of membership and of the key of the returned entry only.
\<close>

definition get_vehicle :: "real \<Rightarrow> int \<Rightarrow> vehicle list \<Rightarrow> int \<Rightarrow> real \<Rightarrow> vehicle option" where
  "get_vehicle s lane sensor_fusion prev_size buffer =
     (let found = found_vehicles s lane sensor_fusion prev_size buffer;
          found = (if buffer \<ge> 0 then sort_key veh_s found
                   else sort_key (\<lambda>veh. - veh_s veh) found)
      in if length found > 0 then Some (hd found) else None)"

section \<open>Behavior arbiter: \<^verbatim>\<open>behavior\<close>\<close>

text \<open>The three lane costs as they stand after line 126.\<close>

record costs =
  left_cost :: real
  mid_cost :: real
  right_cost :: real

definition front_cost :: "vehicle option \<Rightarrow> real \<Rightarrow> int \<Rightarrow> real \<Rightarrow> real \<Rightarrow> real \<Rightarrow> real" where
  "front_cost front_car s prev_size w_dist w_speed cost =
     (case front_car of
        None \<Rightarrow> cost
      | Some veh \<Rightarrow>
          (let cost = cost + w_speed * (49.5 - 2.24 * get_vehicle_speed veh);
               cost = cost + w_dist / get_vehicle_dist veh s prev_size
           in cost))"

definition lane_costs ::
  "real \<Rightarrow> vehicle list \<Rightarrow> int \<Rightarrow> int \<Rightarrow> real \<Rightarrow> real \<Rightarrow> real \<Rightarrow> real \<Rightarrow> real \<Rightarrow> costs" where
  "lane_costs s sensor_fusion lane prev_size buffer w_dist w_speed w_stay w_coll =
     (let left_front_car = get_vehicle s 0 sensor_fusion prev_size buffer;
          mid_front_car = get_vehicle s 1 sensor_fusion prev_size buffer;
          right_front_car = get_vehicle s 2 sensor_fusion prev_size buffer;
          left_back_car = get_vehicle s 0 sensor_fusion prev_size (- buffer / 3);
          mid_back_car = get_vehicle s 1 sensor_fusion prev_size (- buffer / 3);
          right_back_car = get_vehicle s 2 sensor_fusion prev_size (- buffer / 3);
          left_cost = front_cost left_front_car s prev_size w_dist w_speed 0;
          mid_cost = front_cost mid_front_car s prev_size w_dist w_speed 0;
          right_cost = front_cost right_front_car s prev_size w_dist w_speed 0;
          left_cost = (if lane = 0 then left_cost - w_stay else left_cost);
          mid_cost = (if lane = 1 then mid_cost - w_stay else mid_cost);
          right_cost = (if lane = 2 then right_cost - w_stay else right_cost);
          left_cost = (if left_back_car \<noteq> None \<and> lane \<noteq> 0 then left_cost + w_coll else left_cost);
          mid_cost = (if mid_back_car \<noteq> None \<and> lane \<noteq> 1 then mid_cost + w_coll else mid_cost);
          right_cost = (if right_back_car \<noteq> None \<and> lane \<noteq> 2 then right_cost + w_coll else right_cost)
      in \<lparr>left_cost = left_cost, mid_cost = mid_cost, right_cost = right_cost\<rparr>)"

text \<open>
  Lane selection, lines 131 to 137: four \<^verbatim>\<open>if\<close> statements in a row, each reading the
  \<^verbatim>\<open>lane\<close> variable as the one before left it.
\<close>

definition select_lane :: "int \<Rightarrow> costs \<Rightarrow> int" where
  "select_lane lane c =
     (let lane = (if lane = 0 \<and> mid_cost c < left_cost c then lane + 1 else lane);
          lane = (if lane = 1 \<and> right_cost c < mid_cost c \<and> right_cost c \<le> left_cost c
                  then lane + 1 else lane);
          lane = (if lane = 2 \<and> mid_cost c < right_cost c then lane - 1 else lane);
          lane = (if lane = 1 \<and> left_cost c < mid_cost c \<and> left_cost c < right_cost c
                  then lane - 1 else lane)
      in lane)"

text \<open>
  The \<^verbatim>\<open>switch\<close> of lines 141 to 145 has no \<^verbatim>\<open>break\<close>: control entering at one
  \<^verbatim>\<open>case\<close> label runs every assignment below it.  Each line of the model is one
  assignment, guarded by the labels from which control reaches it.
\<close>

definition target_vehicle ::
  "int \<Rightarrow> vehicle option \<Rightarrow> vehicle option \<Rightarrow> vehicle option \<Rightarrow> vehicle option" where
  "target_vehicle lane left_front_car mid_front_car right_front_car =
     (let target = None;
          target = (if lane = 0 then left_front_car else target);
          target = (if lane = 0 \<or> lane = 1 then mid_front_car else target);
          target = (if lane = 0 \<or> lane = 1 \<or> lane = 2 then right_front_car else target)
      in target)"

text \<open>
  Reference speed control, lines 146 to 159, for one call.  The sum and the difference
  with 0.224 are the exact ones; the code rounds them to doubles, so that a step up
  followed by a step down need not return to the same value.  The statements about
  \<open>speed_control\<close> are therefore made for one call and for every value of \<^verbatim>\<open>ref_vel\<close> before
  it.
\<close>

definition speed_control :: "vehicle option \<Rightarrow> real \<Rightarrow> real" where
  "speed_control target ref_vel =
     (case target of
        Some veh \<Rightarrow>
          (let target_speed = get_vehicle_speed veh
           in if ref_vel / 2.24 > target_speed then ref_vel - 0.224
              else if ref_vel / 2.24 < target_speed - 0.5 then ref_vel + 0.224
              else ref_vel)
      | None \<Rightarrow> (if ref_vel < 49.5 then ref_vel + 0.224 else ref_vel))"

text \<open>
  \<^verbatim>\<open>behavior\<close> updates \<^verbatim>\<open>ref_vel\<close> and \<^verbatim>\<open>lane\<close> through references; the model returns the
  pair of their new values.  The parameter \<open>d\<close> is unused, as in the source.
\<close>

definition behavior ::
  "real \<Rightarrow> real \<Rightarrow> vehicle list \<Rightarrow> real \<Rightarrow> int \<Rightarrow> int \<Rightarrow> real \<Rightarrow> real \<Rightarrow> real \<Rightarrow> real \<Rightarrow> real
     \<Rightarrow> real \<times> int" where
  "behavior s d sensor_fusion ref_vel lane prev_size buffer w_dist w_speed w_stay w_coll =
     (let left_front_car = get_vehicle s 0 sensor_fusion prev_size buffer;
          mid_front_car = get_vehicle s 1 sensor_fusion prev_size buffer;
          right_front_car = get_vehicle s 2 sensor_fusion prev_size buffer;
          c = lane_costs s sensor_fusion lane prev_size buffer w_dist w_speed w_stay w_coll;
          lane = select_lane lane c;
          target = target_vehicle lane left_front_car mid_front_car right_front_car;
          ref_vel = speed_control target ref_vel
      in (ref_vel, lane))"

text \<open>The call of line 251 leaves the five tuning parameters at their defaults.\<close>

definition behavior_default :: "real \<Rightarrow> real \<Rightarrow> vehicle list \<Rightarrow> real \<Rightarrow> int \<Rightarrow> int \<Rightarrow> real \<times> int" where
  "behavior_default s d sensor_fusion ref_vel lane prev_size =
     behavior s d sensor_fusion ref_vel lane prev_size 30.0 40.0 1.0 5.0 1000.0"

section \<open>Control loop: planner state and one telemetry cycle\<close>

text \<open>
  \<^verbatim>\<open>main\<close> keeps \<^verbatim>\<open>lane\<close> and \<^verbatim>\<open>ref_vel\<close> across messages (lines 199 to 203) and the
  message handler passes both to \<^verbatim>\<open>behavior\<close> by reference.  Of a telemetry message the
  behaviour step reads \<^verbatim>\<open>s\<close>, \<^verbatim>\<open>d\<close>, \<^verbatim>\<open>end_path_s\<close>, the size of \<^verbatim>\<open>previous_path_x\<close>
  and \<^verbatim>\<open>sensor_fusion\<close> (lines 227 to 251).
\<close>

record planner_state =
  ps_lane :: int
  ps_ref_vel :: real

definition initial_state :: planner_state where
  "initial_state = \<lparr>ps_lane = 1, ps_ref_vel = 0.0\<rparr>"

record telemetry =
  car_s :: real
  car_d :: real
  end_path_s :: real
  previous_path_x :: "real list"
  previous_path_y :: "real list"
  sensor_fusion :: "vehicle list"

definition cycle_prev_size :: "telemetry \<Rightarrow> int" where
  "cycle_prev_size msg = int (length (previous_path_x msg))"

definition cycle_car_s :: "telemetry \<Rightarrow> real" where
  "cycle_car_s msg = (if cycle_prev_size msg > 0 then end_path_s msg else car_s msg)"

definition behavior_step :: "telemetry \<Rightarrow> planner_state \<Rightarrow> planner_state" where
  "behavior_step msg st =
     (let prev_size = cycle_prev_size msg;
          car_s = cycle_car_s msg;
          (ref_vel, lane) =
             behavior_default car_s (car_d msg) (sensor_fusion msg) (ps_ref_vel st) (ps_lane st) prev_size
      in \<lparr>ps_lane = lane, ps_ref_vel = ref_vel\<rparr>)"

text \<open>The planner state after a sequence of telemetry messages, oldest first.\<close>

fun run_cycles :: "telemetry list \<Rightarrow> planner_state \<Rightarrow> planner_state" where
  "run_cycles [] st = st"
| "run_cycles (msg # msgs) st = run_cycles msgs (behavior_step msg st)"

section \<open>Trajectory synthesizer: filling the output path\<close>

text \<open>
  Lines 310 to 342.  The fitted curve \<^verbatim>\<open>tk::spline s\<close> comes from \<^verbatim>\<open>spline.h\<close>, which is
  not part of the sources at hand; the model takes the curve as the function \<open>spl\<close>, and
  the reference pose \<open>ref_x\<close>, \<open>ref_y\<close>, \<open>ref_yaw\<close> as computed by lines 258 to 283.

  \<open>speed_divisor\<close> is the divisor of line 328 and \<open>N_steps\<close> the quotient \<^verbatim>\<open>N\<close>.  Its
  dividend \<^verbatim>\<open>target_dist\<close> (line 323) is the chord to the point of the curve at
  \<^verbatim>\<open>target_x = 30\<close>; it is at least 30, so the quotient by a zero divisor is the positive
  infinity, and \<^verbatim>\<open>target_x / N\<close> is then zero.
\<close>

definition speed_divisor :: "real \<Rightarrow> real" where
  "speed_divisor ref_vel = 0.02 * ref_vel / 2.24"

definition target_dist :: "real \<Rightarrow> real" where
  "target_dist target_y =
     (let target_x = 30.0 in sqrt ((target_x * target_x) + (target_y * target_y)))"

definition N_steps :: "real \<Rightarrow> real \<Rightarrow> ieee" where
  "N_steps target_y ref_vel =
     (if speed_divisor ref_vel = 0 then PlusInf
      else Finite (target_dist target_y / speed_divisor ref_vel))"

definition x_increment :: "real \<Rightarrow> real \<Rightarrow> real" where
  "x_increment target_y ref_vel =
     (let target_x = 30.0
      in case N_steps target_y ref_vel of
           Finite N \<Rightarrow> target_x / N
         | PlusInf \<Rightarrow> 0
         | MinusInf \<Rightarrow> 0)"

fun fill_path ::
  "nat \<Rightarrow> (real \<Rightarrow> real) \<Rightarrow> real \<Rightarrow> real \<Rightarrow> real \<Rightarrow> real \<Rightarrow> real \<Rightarrow> real \<Rightarrow> (real \<times> real) list" where
  "fill_path 0 spl ref_x ref_y ref_yaw target_y ref_vel x_add_on = []"
| "fill_path (Suc n) spl ref_x ref_y ref_yaw target_y ref_vel x_add_on =
     (let x_point = x_add_on + x_increment target_y ref_vel;
          y_point = spl x_point;
          x_add_on = x_point;
          x_ref = x_point;
          y_ref = y_point;
          x_point = x_ref * cos ref_yaw - y_ref * sin ref_yaw;
          y_point = x_ref * sin ref_yaw + y_ref * cos ref_yaw;
          x_point = x_point + ref_x;
          y_point = y_point + ref_y
      in (x_point, y_point) # fill_path n spl ref_x ref_y ref_yaw target_y ref_vel x_add_on)"

text \<open>
  \<open>next_vals\<close> returns \<^verbatim>\<open>next_x_vals\<close> and \<^verbatim>\<open>next_y_vals\<close>.  The first loop (lines 315 to
  318) reads \<^verbatim>\<open>previous_path_x[i]\<close> and \<^verbatim>\<open>previous_path_y[i]\<close> for every index below the size
  of \<^verbatim>\<open>previous_path_x\<close>; the simulator sends both arrays with the same length, which the
  statements about the second component assume.  The second loop runs for
  \<^verbatim>\<open>i = 1 .. 50 - prev_size\<close>, that is not at all when \<^verbatim>\<open>prev_size\<close> is 50 or more.  The
  chord \<^verbatim>\<open>target_dist\<close> of line 323 enters through \<open>N_steps\<close>, as a function of \<open>target_y\<close>.
\<close>

definition next_vals ::
  "real list \<Rightarrow> real list \<Rightarrow> (real \<Rightarrow> real) \<Rightarrow> real \<Rightarrow> real \<Rightarrow> real \<Rightarrow> real \<Rightarrow> real list \<times> real list" where
  "next_vals prev_path_x prev_path_y spl ref_x ref_y ref_yaw ref_vel =
     (let prev_size = int (length prev_path_x);
          next_x_vals = map (\<lambda>i. prev_path_x ! i) [0..<nat prev_size];
          next_y_vals = map (\<lambda>i. prev_path_y ! i) [0..<nat prev_size];
          target_x = 30.0;
          target_y = spl target_x;
          x_add_on = 0;
          pts = fill_path (nat (50 - prev_size)) spl ref_x ref_y ref_yaw target_y ref_vel x_add_on
      in (next_x_vals @ map fst pts, next_y_vals @ map snd pts))"

section \<open>Notions used in the statements\<close>

text \<open>
  The lane test of lines 41 and 42, on the lateral offset narrowed to a \<^verbatim>\<open>float\<close>, and
  the two range tests of lines 47 and 51, as predicates on one vehicle; \<open>qualifies\<close> is
  the condition under which the loop of \<^verbatim>\<open>get_vehicle\<close> keeps an entry.
\<close>

definition in_lane :: "int \<Rightarrow> vehicle \<Rightarrow> bool" where
  "in_lane lane v =
     (let d = float_of_double (veh_d v)
      in ieee_less d (float_of_int (2 + 4 * lane + 2)) \<and>
         ieee_greater d (float_of_int (2 + 4 * lane - 2)))"

definition in_range :: "real \<Rightarrow> real \<Rightarrow> bool" where
  "in_range buffer check_dist =
     (if buffer \<ge> 0 then 0 < check_dist \<and> check_dist < buffer
      else buffer < check_dist \<and> check_dist < 0)"

definition qualifies :: "real \<Rightarrow> int \<Rightarrow> int \<Rightarrow> real \<Rightarrow> vehicle \<Rightarrow> bool" where
  "qualifies s lane prev_size buffer v = (in_lane lane v \<and> in_range buffer (get_vehicle_dist v s prev_size))"

text \<open>The cost of lane 0, 1 or 2 out of the three costs.\<close>

definition cost_of :: "int \<Rightarrow> costs \<Rightarrow> real" where
  "cost_of L c = (if L = 0 then left_cost c else if L = 1 then mid_cost c else right_cost c)"


section \<open>Concrete traffic scenes\<close>

text \<open>
  \<open>car s d vx\<close> is a \<^verbatim>\<open>sensor_fusion\<close> entry at arc length \<open>s\<close> and lateral offset \<open>d\<close>
  that moves with velocity \<open>(vx, 0)\<close>; its speed is \<open>\<bar>vx\<bar>\<close>.
\<close>

definition car :: "real \<Rightarrow> real \<Rightarrow> real \<Rightarrow> vehicle" where
  "car s d vx = \<lparr>veh_id = 0, veh_x = 0, veh_y = 0, veh_vx = vx, veh_vy = 0, veh_s = s, veh_d = d\<rparr>"


section \<open>Basic facts about the traffic snapshot\<close>


lemma get_vehicle_speed_car: "get_vehicle_speed (car s d vx) = \<bar>vx\<bar>"
  by (simp add: get_vehicle_speed_def car_def)

lemma get_vehicle_dist_car: "get_vehicle_dist (car s d vx) s0 n = (s + real_of_int n * 0.02 * \<bar>vx\<bar>) - s0"
  by (simp add: get_vehicle_dist_def get_vehicle_speed_car) (simp add: car_def)

lemma veh_d_car: "veh_d (car s d vx) = d"
  by (simp add: car_def)

lemma veh_s_car: "veh_s (car s d vx) = s"
  by (simp add: car_def)

lemma binade_up_numeral:
  "binade_up (numeral k) p a = (if a < 2 * p then p else binade_up (pred_numeral k) (2 * p) a)"
  by (simp add: numeral_eq_Suc)

lemma binade_down_numeral:
  "binade_down (numeral k) p a = (if p \<le> a then p else binade_down (pred_numeral k) (p / 2) a)"
  by (simp add: numeral_eq_Suc)

lemmas float_eval = float_of_double_def float_of_int_def float_round_def float_binade_def
  round_half_even_def binade_up_numeral binade_down_numeral Let_def

text \<open>
  Some values of the rounding: a number that is no float, two ties between neighbouring
  floats, a negative number, and a magnitude beyond the largest float.
\<close>

lemma float_round_examples:
  "float_round 0.1 = 13421773 / 134217728"
  "float_round 16777217 = 16777216"
  "float_round 33554435 = 33554436"
  "float_round (- 0.3) = - 5033165 / 16777216"
  by (simp_all add: float_eval)

lemma float_of_double_overflow:
  "float_of_double (4 * 10 ^ 38) = PlusInf" "float_of_double (- 4 * 10 ^ 38) = MinusInf"
  by (simp_all add: float_eval)

text \<open>The lateral offsets and lane bounds of the scenes below are floats.\<close>

lemma float_of_double_exact:
  "float_of_double 2 = Finite 2" "float_of_double 6 = Finite 6" "float_of_double 10 = Finite 10"
  by (simp_all add: float_eval)

lemma float_of_int_exact:
  "float_of_int 0 = 0" "float_of_int 4 = 4" "float_of_int 8 = 8" "float_of_int 12 = 12"
  by (simp_all add: float_eval)

text \<open>
  A lateral offset within float rounding of the boundary between lane 0 and lane 1
  narrows to the boundary 4 itself and is in neither lane.
\<close>

lemma float_of_double_boundary:
  "float_of_double 4.00000001 = Finite 4" "float_of_double 3.9999999 = Finite 4"
  by (simp_all add: float_eval)

lemma in_lane_boundary:
  "\<not> in_lane 0 (car s 4.00000001 vx)" "\<not> in_lane 1 (car s 4.00000001 vx)"
  "\<not> in_lane 0 (car s 3.9999999 vx)" "\<not> in_lane 1 (car s 3.9999999 vx)"
  by (simp_all only: in_lane_def veh_d_car float_of_double_boundary Let_def)
    (simp_all add: float_of_int_exact)

lemmas car_simps = get_vehicle_speed_car get_vehicle_dist_car veh_d_car veh_s_car
  float_of_double_exact float_of_int_exact

lemma found_vehicles_filter:
  "found_vehicles s lane sf prev_size buffer = filter (qualifies s lane prev_size buffer) sf"
  by (induction sf) (auto simp: qualifies_def in_lane_def in_range_def Let_def)

lemma hd_sort_key_min:
  assumes "xs \<noteq> []"
  shows "hd (sort_key f xs) \<in> set xs \<and> (\<forall>y\<in>set xs. f (hd (sort_key f xs)) \<le> f y)"
proof -
  let ?ys = "sort_key f xs"
  from assms have ne: "?ys \<noteq> []" by (metis length_sort length_0_conv)
  then obtain z zs where ys: "?ys = z # zs" by (cases ?ys) auto
  have "sorted (map f ?ys)" by (rule sorted_sort_key)
  with ys have "\<forall>y\<in>set zs. f z \<le> f y" by simp
  moreover have "set ?ys = set xs" by simp
  ultimately show ?thesis using ys by (metis list.sel(1) list.set_intros(1) order_refl set_ConsD)
qed

lemma sort_key_Nil_iff: "sort_key f xs = [] \<longleftrightarrow> xs = []"
  by (metis length_sort length_0_conv)

lemma get_vehicle_None_iff:
  "get_vehicle s lane sf prev_size buffer = None \<longleftrightarrow> (\<forall>v\<in>set sf. \<not> qualifies s lane prev_size buffer v)"
  by (auto simp: get_vehicle_def Let_def found_vehicles_filter filter_empty_conv sort_key_Nil_iff)


lemma get_vehicle_Some:
  assumes "get_vehicle s lane sf prev_size buffer = Some v"
  shows "v \<in> set sf \<and> qualifies s lane prev_size buffer v \<and>
         (\<forall>u\<in>set sf. qualifies s lane prev_size buffer u \<longrightarrow>
            (if buffer \<ge> 0 then veh_s v \<le> veh_s u else veh_s u \<le> veh_s v))"
proof -
  let ?found = "filter (qualifies s lane prev_size buffer) sf"
  define key :: "vehicle \<Rightarrow> real" where "key = (if buffer \<ge> 0 then veh_s else (\<lambda>veh. - veh_s veh))"
  from assms have ne: "?found \<noteq> []"
    by (auto simp: get_vehicle_def Let_def found_vehicles_filter sort_key_Nil_iff split: if_splits)
  from assms have v: "v = hd (sort_key key ?found)"
    by (auto simp: get_vehicle_def Let_def found_vehicles_filter key_def split: if_splits)
  from hd_sort_key_min[OF ne, of key] v
  have m: "v \<in> set ?found" and le: "\<forall>y\<in>set ?found. key v \<le> key y" by auto
  from le have "\<forall>u\<in>set sf. qualifies s lane prev_size buffer u \<longrightarrow>
            (if buffer \<ge> 0 then veh_s v \<le> veh_s u else veh_s u \<le> veh_s v)"
    by (auto simp: key_def split: if_splits)
  with m show ?thesis by auto
qed


lemmas behavior_unfold = behavior_default_def behavior_def lane_costs_def select_lane_def
  target_vehicle_def speed_control_def front_cost_def get_vehicle_def Let_def

section \<open>The vehicle that \<^verbatim>\<open>get_vehicle\<close> returns\<close>

text \<open>
  Claim C4, as the code has it.  Let the lane be one for which the \<^verbatim>\<open>int\<close> arithmetic of
  the lane test does not overflow.  \<open>get_vehicle\<close> returns nothing exactly when no entry
  of \<open>sensor_fusion\<close> is in the lane (by the test on the narrowed lateral offset) with
  its projected distance in range.  Otherwise it returns an entry of the list that is in
  the lane and whose projected distance lies strictly between 0 and the bound (bound
  nonnegative) or strictly between the bound and 0 (bound negative); among all such
  entries the returned one has the smallest observed arc length \<open>veh_s\<close> in the first
  case and the largest in the second.  The sort key of lines 63 and 72 is the observed
  arc length (index 5), not the projected one.
\<close>

theorem get_vehicle_nearest_observed:
  assumes "lane_in_range lane"
  shows "(get_vehicle s lane sf prev_size buffer = None \<longleftrightarrow>
      (\<forall>u\<in>set sf. \<not> qualifies s lane prev_size buffer u)) \<and>
   (\<forall>v. get_vehicle s lane sf prev_size buffer = Some v \<longrightarrow>
      v \<in> set sf \<and> in_lane lane v \<and>
      (if buffer \<ge> 0
       then 0 < get_vehicle_dist v s prev_size \<and> get_vehicle_dist v s prev_size < buffer \<and>
            (\<forall>u\<in>set sf. qualifies s lane prev_size buffer u \<longrightarrow> veh_s v \<le> veh_s u)
       else buffer < get_vehicle_dist v s prev_size \<and> get_vehicle_dist v s prev_size < 0 \<and>
            (\<forall>u\<in>set sf. qualifies s lane prev_size buffer u \<longrightarrow> veh_s u \<le> veh_s v)))"
proof (intro conjI allI impI)
  show "get_vehicle s lane sf prev_size buffer = None \<longleftrightarrow>
      (\<forall>u\<in>set sf. \<not> qualifies s lane prev_size buffer u)"
    by (rule get_vehicle_None_iff)
next
  fix v assume "get_vehicle s lane sf prev_size buffer = Some v"
  from get_vehicle_Some[OF this]
  have m: "v \<in> set sf" and q: "qualifies s lane prev_size buffer v"
    and le: "\<forall>u\<in>set sf. qualifies s lane prev_size buffer u \<longrightarrow>
            (if buffer \<ge> 0 then veh_s v \<le> veh_s u else veh_s u \<le> veh_s v)"
    by blast+
  show "v \<in> set sf" by (rule m)
  show "in_lane lane v" using q by (simp add: qualifies_def)
  show "if buffer \<ge> 0
       then 0 < get_vehicle_dist v s prev_size \<and> get_vehicle_dist v s prev_size < buffer \<and>
            (\<forall>u\<in>set sf. qualifies s lane prev_size buffer u \<longrightarrow> veh_s v \<le> veh_s u)
       else buffer < get_vehicle_dist v s prev_size \<and> get_vehicle_dist v s prev_size < 0 \<and>
            (\<forall>u\<in>set sf. qualifies s lane prev_size buffer u \<longrightarrow> veh_s u \<le> veh_s v)"
    using q le by (auto simp: qualifies_def in_range_def split: if_splits)
qed

text \<open>
  Two scenes for the statement above: two vehicles ahead in lane 1 with 50 queued path
  points and the bound 30, and two vehicles behind in lane 1 with the bound \<open>-10\<close>.
\<close>

theorem get_vehicle_nearest_observed_witness:
  "lane_in_range 1 \<and>
   get_vehicle 0 1 [car 12 6 0, car 10 6 10] 50 30 = Some (car 10 6 10) \<and>
   qualifies 0 1 50 30 (car 12 6 0) \<and> veh_s (car 10 6 10) \<le> veh_s (car 12 6 0) \<and>
   get_vehicle 100 1 [car 95 6 0, car 97 6 0] 0 (- 10) = Some (car 97 6 0) \<and>
   qualifies 100 1 0 (- 10) (car 95 6 0) \<and> veh_s (car 95 6 0) \<le> veh_s (car 97 6 0)"
proof -
  have l: "lane_in_range 1" by (simp add: lane_in_range_def)
  have a: "get_vehicle 0 1 [car 12 6 0, car 10 6 10] 50 30 = Some (car 10 6 10)"
    by (simp add: get_vehicle_def Let_def car_simps)
  have b: "get_vehicle 100 1 [car 95 6 0, car 97 6 0] 0 (- 10) = Some (car 97 6 0)"
    by (simp add: get_vehicle_def Let_def car_simps)
  have qa: "qualifies 0 1 50 30 (car 12 6 0)"
    by (simp add: qualifies_def in_lane_def in_range_def car_simps)
  have qb: "qualifies 100 1 0 (- 10) (car 95 6 0)"
    by (simp add: qualifies_def in_lane_def in_range_def car_simps)
  from get_vehicle_nearest_observed[OF l, of 0 "[car 12 6 0, car 10 6 10]" 50 30] a qa
  have "veh_s (car 10 6 10) \<le> veh_s (car 12 6 0)" by simp
  moreover
  from get_vehicle_nearest_observed[OF l, of 100 "[car 95 6 0, car 97 6 0]" 0 "- 10"] b qb
  have "veh_s (car 95 6 0) \<le> veh_s (car 97 6 0)" by simp
  ultimately show ?thesis using l a b qa qb by simp
qed

text \<open>
  With the projected arc length in place of the observed one the statement fails.  The
  ego vehicle is at arc length 0 with 50 queued points (one second).  A vehicle observed
  at 10 moving at 10 is projected to 20, a standing vehicle observed at 12 stays at 12.
  Both are in lane 1 and in range; \<open>get_vehicle\<close> returns the first, whose projected arc
  length is the larger one.
\<close>

theorem get_vehicle_smallest_projected_counterexample:
  "get_vehicle 0 1 [car 10 6 10, car 12 6 0] 50 30 = Some (car 10 6 10) \<and>
   qualifies 0 1 50 30 (car 12 6 0) \<and>
   veh_s (car 12 6 0) + real_of_int 50 * 0.02 * get_vehicle_speed (car 12 6 0)
     < veh_s (car 10 6 10) + real_of_int 50 * 0.02 * get_vehicle_speed (car 10 6 10)"
  by (simp add: get_vehicle_def Let_def car_simps qualifies_def in_lane_def in_range_def)

section \<open>Lane selection\<close>

lemma select_lane_cases:
  assumes "lane \<in> {0, 1, 2}"
  shows "select_lane lane c =
     (if lane = 0 then (if mid_cost c < left_cost c then (if right_cost c < mid_cost c then 2 else 1) else 0)
      else if lane = 1 then
         (if right_cost c < mid_cost c \<and> right_cost c \<le> left_cost c then 2
          else if left_cost c < mid_cost c \<and> left_cost c < right_cost c then 0 else 1)
      else (if mid_cost c < right_cost c then (if left_cost c < mid_cost c then 0 else 1) else 2))"
  using assms by (auto simp: select_lane_def Let_def)

lemma snd_behavior:
  "snd (behavior s d sf ref_vel lane prev_size buffer w_dist w_speed w_stay w_coll) =
     select_lane lane (lane_costs s sf lane prev_size buffer w_dist w_speed w_stay w_coll)"
  by (simp add: behavior_def Let_def)

lemma select_lane_range: "lane \<in> {0, 1, 2} \<Longrightarrow> select_lane lane c \<in> {0, 1, 2}"
  by (auto simp: select_lane_cases)

lemma lane_behavior_step:
  "ps_lane (behavior_step msg st) =
     snd (behavior_default (cycle_car_s msg) (car_d msg) (sensor_fusion msg) (ps_ref_vel st)
            (ps_lane st) (cycle_prev_size msg))"
  by (simp add: behavior_step_def Let_def split_beta)

lemma behavior_step_lane_range:
  assumes "ps_lane st \<in> {0, 1, 2}"
  shows "ps_lane (behavior_step msg st) \<in> {0, 1, 2}"
  unfolding lane_behavior_step behavior_default_def snd_behavior
  using assms by (rule select_lane_range)

lemma run_cycles_lane_range:
  assumes "ps_lane st \<in> {0, 1, 2}"
  shows "ps_lane (run_cycles msgs st) \<in> {0, 1, 2}"
  using assms
proof (induction msgs arbitrary: st)
  case Nil
  then show ?case by (simp only: run_cycles.simps)
next
  case (Cons msg msgs)
  from Cons.IH[OF behavior_step_lane_range[OF Cons.prems]] show ?case
    by (simp only: run_cycles.simps)
qed

text \<open>
  Claim C9.  The planner state starts with lane 1, and a call of \<open>behavior\<close> with a lane
  in \<open>{0, 1, 2}\<close> leaves a lane in \<open>{0, 1, 2}\<close>, whatever the observations, the reference
  speed and the weights are.  Hence the lane is in \<open>{0, 1, 2}\<close> after every sequence of
  telemetry cycles.
\<close>

theorem lane_invariant:
  "ps_lane initial_state = 1 \<and>
   (lane \<in> {0, 1, 2} \<longrightarrow>
      snd (behavior s d sf ref_vel lane prev_size buffer w_dist w_speed w_stay w_coll) \<in> {0, 1, 2}) \<and>
   ps_lane (run_cycles msgs initial_state) \<in> {0, 1, 2}"
proof -
  have i: "ps_lane initial_state = 1" by (simp add: initial_state_def)
  then have "ps_lane initial_state \<in> {0, 1, 2}" by simp
  then have "ps_lane (run_cycles msgs initial_state) \<in> {0, 1, 2}" by (rule run_cycles_lane_range)
  with i show ?thesis by (simp add: snd_behavior select_lane_range del: insert_iff)
qed

text \<open>The first call of the control loop, with a standing vehicle ahead in lane 1.\<close>

theorem lane_invariant_witness:
  "ps_lane initial_state \<in> {0, 1, 2} \<and>
   snd (behavior 0 6 [car 10 6 0] 0 (ps_lane initial_state) 0 30 40 1 5 1000) \<in> {0, 1, 2}"
  using lane_invariant[of "ps_lane initial_state" 0 6 "[car 10 6 0]" 0 0 30 40 1 5 1000]
  by (simp add: initial_state_def)

text \<open>
  Claim C2, as the code has it.  From lane 1 a call of \<open>behavior\<close> moves the lane by at
  most one.  From lane 0 the first and the second rule can both fire, and from lane 2 the
  third and the fourth: the lane then moves by two.  That happens exactly when the middle
  lane is cheaper than the current one and the far lane is cheaper than the middle lane;
  in no case does the lane move by more than two.
\<close>

theorem lane_change_at_most_two:
  assumes "lane \<in> {0, 1, 2}"
    and "c = lane_costs s sf lane prev_size buffer w_dist w_speed w_stay w_coll"
    and "lane' = snd (behavior s d sf ref_vel lane prev_size buffer w_dist w_speed w_stay w_coll)"
  shows "\<bar>lane' - lane\<bar> \<le> 2 \<and> (lane = 1 \<longrightarrow> \<bar>lane' - lane\<bar> \<le> 1) \<and>
     (\<bar>lane' - lane\<bar> = 2 \<longleftrightarrow>
        (lane = 0 \<and> mid_cost c < left_cost c \<and> right_cost c < mid_cost c) \<or>
        (lane = 2 \<and> mid_cost c < right_cost c \<and> left_cost c < mid_cost c))"
proof -
  from assms have l': "lane' = select_lane lane c" by (simp add: snd_behavior)
  from assms(1) show ?thesis unfolding l' by (auto simp: select_lane_cases)
qed

text \<open>
  The call from lane 0 with a standing vehicle 10 ahead in lane 0 and a vehicle 25 ahead in
  lane 1 that moves at 20: the costs are 48.5, 6.3 and 0, and the lane moves by two.
\<close>

theorem lane_change_at_most_two_witness:
  "(0::int) \<in> {0, 1, 2} \<and>
   \<bar>snd (behavior 0 2 [car 10 2 0, car 25 6 20] 0 0 0 30 40 1 5 1000) - 0\<bar> = 2 \<and>
   mid_cost (lane_costs 0 [car 10 2 0, car 25 6 20] 0 0 30 40 1 5 1000)
     < left_cost (lane_costs 0 [car 10 2 0, car 25 6 20] 0 0 30 40 1 5 1000) \<and>
   right_cost (lane_costs 0 [car 10 2 0, car 25 6 20] 0 0 30 40 1 5 1000)
     < mid_cost (lane_costs 0 [car 10 2 0, car 25 6 20] 0 0 30 40 1 5 1000)"
proof -
  have e: "snd (behavior 0 2 [car 10 2 0, car 25 6 20] 0 0 0 30 40 1 5 1000) = 2"
    by (simp add: behavior_unfold car_simps)
  from lane_change_at_most_two[of 0 _ 0 "[car 10 2 0, car 25 6 20]" 0 30 40 1 5 1000 _ 2 0, OF _ refl refl] e
  show ?thesis by simp
qed

text \<open>The same call refutes the bound of one lane per call: the lane goes from 0 to 2.\<close>

theorem double_lane_change_counterexample:
  "snd (behavior_default 0 2 [car 10 2 0, car 25 6 20] 0 0 0) = 2 \<and>
   \<not> \<bar>snd (behavior_default 0 2 [car 10 2 0, car 25 6 20] 0 0 0) - 0\<bar> \<le> 1"
  by (simp add: behavior_unfold car_simps)

section \<open>Rear vehicles and lane changes\<close>

lemma cost_of_lane_costs:
  assumes "L \<in> {0, 1, 2}"
  shows "cost_of L (lane_costs s sf lane prev_size buffer w_dist w_speed w_stay w_coll) =
     front_cost (get_vehicle s L sf prev_size buffer) s prev_size w_dist w_speed 0
       - (if lane = L then w_stay else 0)
       + (if get_vehicle s L sf prev_size (- buffer / 3) \<noteq> None \<and> lane \<noteq> L then w_coll else 0)"
  using assms by (auto simp: cost_of_def lane_costs_def Let_def)

text \<open>
  Claim C3, as the code has it.  A rear vehicle in an adjacent lane \<open>L\<close> adds \<open>w_coll\<close> to
  the cost of \<open>L\<close>, and the call ends in lane \<open>L\<close> only if the cost of \<open>L\<close>, that penalty
  included, is still strictly below the cost of the current lane.  The penalty is a
  summand of a cost that is compared, not a guard.
\<close>

theorem rear_vehicle_penalty:
  assumes "lane \<in> {0, 1, 2}" and "L \<in> {0, 1, 2}" and "\<bar>L - lane\<bar> = 1"
    and "get_vehicle s L sf prev_size (- buffer / 3) \<noteq> None"
    and "c = lane_costs s sf lane prev_size buffer w_dist w_speed w_stay w_coll"
  shows "cost_of L c =
           front_cost (get_vehicle s L sf prev_size buffer) s prev_size w_dist w_speed 0 + w_coll \<and>
         (snd (behavior s d sf ref_vel lane prev_size buffer w_dist w_speed w_stay w_coll) = L
            \<longrightarrow> cost_of L c < cost_of lane c)"
proof -
  from assms(3) have ne: "lane \<noteq> L" by auto
  have 1: "cost_of L c =
           front_cost (get_vehicle s L sf prev_size buffer) s prev_size w_dist w_speed 0 + w_coll"
    using assms(2,4) ne unfolding assms(5) by (simp add: cost_of_lane_costs del: insert_iff)
  have 2: "select_lane lane c = L \<longrightarrow> cost_of L c < cost_of lane c"
    using assms(1,2,3) by (auto simp: select_lane_cases cost_of_def split: if_splits)
  from 1 2 show ?thesis unfolding assms(5) by (simp add: snd_behavior)
qed

text \<open>
  The ego vehicle in lane 1 at arc length 100, a standing vehicle 0.04 ahead in lane 1 and
  vehicles 5 behind in lanes 0 and 2.  The cost of lane 2 is the penalty 1000, the cost of
  lane 1 is \<open>49.5 + 40 / 0.04 - 5 = 1044.5\<close>, and the call ends in lane 2.
\<close>

theorem rear_vehicle_penalty_witness:
  "get_vehicle 100 2 [car 100.04 6 0, car 95 10 0, car 95 2 0] 0 (- 30 / 3) \<noteq> None \<and>
   snd (behavior 100 6 [car 100.04 6 0, car 95 10 0, car 95 2 0] 0 1 0 30 40 1 5 1000) = 2 \<and>
   cost_of 2 (lane_costs 100 [car 100.04 6 0, car 95 10 0, car 95 2 0] 1 0 30 40 1 5 1000) = 1000 \<and>
   cost_of 2 (lane_costs 100 [car 100.04 6 0, car 95 10 0, car 95 2 0] 1 0 30 40 1 5 1000)
     < cost_of 1 (lane_costs 100 [car 100.04 6 0, car 95 10 0, car 95 2 0] 1 0 30 40 1 5 1000)"
proof -
  let ?sf = "[car 100.04 6 0, car 95 10 0, car 95 2 0]"
  have r: "get_vehicle 100 2 ?sf 0 (- 30 / 3) \<noteq> None"
    by (simp add: get_vehicle_def Let_def car_simps)
  have f: "get_vehicle 100 2 ?sf 0 30 = None"
    by (simp add: get_vehicle_def Let_def car_simps)
  have e: "snd (behavior 100 6 ?sf 0 1 0 30 40 1 5 1000) = 2"
    by (simp add: behavior_unfold car_simps)
  from rear_vehicle_penalty[of 1 2 100 ?sf 0 30 _ 40 1 5 1000 6 0, OF _ _ _ r refl] e f
  show ?thesis using r by (simp add: front_cost_def)
qed

text \<open>
  In that scene a rear vehicle exists in lane 2 within the rear bound \<open>-30 / 3\<close>, and the
  call with the default weights changes from lane 1 to lane 2.
\<close>

theorem rear_vehicle_switch_counterexample:
  "get_vehicle 100 2 [car 100.04 6 0, car 95 10 0, car 95 2 0] 0 (- 30 / 3) = Some (car 95 10 0) \<and>
   snd (behavior_default 100 6 [car 100.04 6 0, car 95 10 0, car 95 2 0] 0 1 0) = 2"
  by (simp add: behavior_unfold car_simps)

section \<open>Monotonicity of the lane cost\<close>



section \<open>The vehicle that the speed control follows\<close>

text \<open>
  Claim C1 at a concrete call.  The ego vehicle drives in lane 1 at arc length 100 with
  reference speed 49.28; the only other vehicle is 20 ahead in lane 1 and moves at 21.
  The lane stays 1, the front vehicle of lane 1 is that vehicle, and it is slower than
  \<open>49.28 / 2.24 = 22\<close>, so following it means the decrease to 49.056.  The call instead
  returns 49.504: the \<^verbatim>\<open>switch\<close> ran on into \<^verbatim>\<open>case 2\<close>, lane 2 has no front vehicle, and
  the branch for a free road added 0.224.
\<close>

theorem behavior_follows_lane2_front_car:
  "behavior_default 100 6 [car 120 6 21] 49.28 1 0 = (49.504, 1) \<and>
   get_vehicle 100 1 [car 120 6 21] 0 30 = Some (car 120 6 21) \<and>
   get_vehicle_speed (car 120 6 21) < 49.28 / 2.24 \<and>
   speed_control (Some (car 120 6 21)) 49.28 = 49.056"
  by (simp add: behavior_unfold car_simps)

section \<open>The distance term of the lane cost\<close>

text \<open>
  Claim C6, as the code has it.  A front vehicle that \<open>get_vehicle\<close> returns for a
  nonnegative bound has a projected distance strictly between 0 and the bound, so the
  divisor of line 108, 112 or 116 is never zero.  The cost of that vehicle is the speed
  term plus exactly \<open>w_dist\<close> divided by that distance: nothing clamps the quotient, and
  for a positive \<open>w_dist\<close> it is above \<open>w_dist / buffer\<close>.
\<close>

theorem front_distance_positive:
  assumes "0 \<le> buffer" and "get_vehicle s lane sf prev_size buffer = Some front_car"
  shows "0 < get_vehicle_dist front_car s prev_size \<and>
         get_vehicle_dist front_car s prev_size < buffer \<and>
         front_cost (Some front_car) s prev_size w_dist w_speed cost =
           cost + w_speed * (49.5 - 2.24 * get_vehicle_speed front_car)
                + w_dist / get_vehicle_dist front_car s prev_size \<and>
         (0 < w_dist \<longrightarrow> w_dist / buffer < w_dist / get_vehicle_dist front_car s prev_size)"
proof -
  from get_vehicle_Some[OF assms(2)] have "qualifies s lane prev_size buffer front_car" by blast
  with assms(1) have d: "0 < get_vehicle_dist front_car s prev_size"
      "get_vehicle_dist front_car s prev_size < buffer"
    by (simp_all add: qualifies_def in_range_def)
  then have "0 < w_dist \<longrightarrow> w_dist / buffer < w_dist / get_vehicle_dist front_car s prev_size"
    by (simp add: frac_less2)
  with d show ?thesis by (simp add: front_cost_def Let_def)
qed

text \<open>A standing vehicle 10 ahead in lane 1.\<close>

theorem front_distance_positive_witness:
  "(0::real) \<le> 30 \<and> get_vehicle 100 1 [car 110 6 0] 0 30 = Some (car 110 6 0) \<and>
   0 < get_vehicle_dist (car 110 6 0) 100 0 \<and>
   front_cost (Some (car 110 6 0)) 100 0 40 1 0 = 49.5 + 40 / 10 \<and>
   (40::real) / 30 < 40 / get_vehicle_dist (car 110 6 0) 100 0"
proof -
  have e: "get_vehicle 100 1 [car 110 6 0] 0 30 = Some (car 110 6 0)"
    by (simp add: get_vehicle_def Let_def car_simps)
  from front_distance_positive[of 30 100 1 "[car 110 6 0]" 0 "car 110 6 0" 40 1 0, OF _ e]
  show ?thesis using e by (simp add: car_simps)
qed

text \<open>
  The penalty has no finite ceiling.  With the ego vehicle in lane 1 at arc length 0 and
  one standing vehicle in lane 0 at arc length \<open>x\<close>, the cost of lane 0 is
  \<open>49.5 + 40 / x\<close>, which exceeds every bound as \<open>x\<close> approaches 0.
\<close>

lemma left_cost_single:
  assumes "0 < x" and "x < 30"
  shows "left_cost (lane_costs 0 [car x 2 0] 1 0 30 40 1 5 1000) = 49.5 + 40 / x"
  using assms by (simp add: lane_costs_def front_cost_def get_vehicle_def Let_def car_simps)

theorem distance_penalty_unbounded_counterexample:
  "\<not> (\<exists>B. \<forall>x. 0 < x \<and> x < 30 \<longrightarrow> left_cost (lane_costs 0 [car x 2 0] 1 0 30 40 1 5 1000) \<le> B)"
proof
  assume "\<exists>B. \<forall>x. 0 < x \<and> x < 30 \<longrightarrow> left_cost (lane_costs 0 [car x 2 0] 1 0 30 40 1 5 1000) \<le> B"
  then obtain B where B: "\<And>x. 0 < x \<Longrightarrow> x < 30 \<Longrightarrow>
      left_cost (lane_costs 0 [car x 2 0] 1 0 30 40 1 5 1000) \<le> B"
    by blast
  define x where "x = 40 / (\<bar>B\<bar> + 2)"
  have pos: "0 < x" by (simp add: x_def)
  have "x \<le> 40 / 2" unfolding x_def by (intro divide_left_mono) simp_all
  then have lt: "x < 30" by simp
  have "40 / x = \<bar>B\<bar> + 2" by (simp add: x_def)
  with left_cost_single[OF pos lt] have "left_cost (lane_costs 0 [car x 2 0] 1 0 30 40 1 5 1000) > B"
    by simp
  with B[OF pos lt] show False by simp
qed

section \<open>The reference speed and the divisor of the step count\<close>









section \<open>The output path\<close>

lemma length_fill_path:
  "length (fill_path n spl ref_x ref_y ref_yaw target_y ref_vel x_add_on) = n"
  by (induction n arbitrary: x_add_on) (simp_all add: Let_def)

lemma carry_over_x: "map (\<lambda>i. xs ! i) [0..<length xs] = xs"
  by (rule map_nth)

lemma carry_over_y: "length ys = length xs \<Longrightarrow> map (\<lambda>i. ys ! i) [0..<length xs] = ys"
  by (metis map_nth)

lemma next_vals_append:
  assumes "length prev_y = length prev_x"
  shows "\<exists>pts. length pts = 50 - length prev_x \<and>
     next_vals prev_x prev_y spl ref_x ref_y ref_yaw ref_vel = (prev_x @ map fst pts, prev_y @ map snd pts)"
proof -
  let ?pts = "fill_path (nat (50 - int (length prev_x))) spl ref_x ref_y ref_yaw
                (spl 30.0) ref_vel 0"
  have "length ?pts = 50 - length prev_x"
    by (simp add: length_fill_path)
  moreover have "next_vals prev_x prev_y spl ref_x ref_y ref_yaw ref_vel =
      (prev_x @ map fst ?pts, prev_y @ map snd ?pts)"
    using assms by (simp add: next_vals_def Let_def carry_over_x carry_over_y)
  ultimately show ?thesis by blast
qed

text \<open>
  Claim C7.  With a path tail of fewer than 50 points the output has exactly 50 points in
  each coordinate; with a tail of 50 or more points the output is the tail itself.
\<close>

theorem output_has_horizon_length:
  assumes "length prev_y = length prev_x"
  shows "(length prev_x < 50 \<longrightarrow>
            length (fst (next_vals prev_x prev_y spl ref_x ref_y ref_yaw ref_vel)) = 50 \<and>
            length (snd (next_vals prev_x prev_y spl ref_x ref_y ref_yaw ref_vel)) = 50) \<and>
         (50 \<le> length prev_x \<longrightarrow>
            next_vals prev_x prev_y spl ref_x ref_y ref_yaw ref_vel = (prev_x, prev_y))"
proof -
  from next_vals_append[OF assms, of spl ref_x ref_y ref_yaw ref_vel]
  obtain pts where "length pts = 50 - length prev_x"
    and "next_vals prev_x prev_y spl ref_x ref_y ref_yaw ref_vel = (prev_x @ map fst pts, prev_y @ map snd pts)"
    by blast
  with assms show ?thesis by auto
qed

text \<open>A tail of two points, a flat curve and the reference speed 0.224.\<close>

theorem output_has_horizon_length_witness:
  "length [3, 4 :: real] = length [1, 2 :: real] \<and> length [1, 2 :: real] < 50 \<and>
   length (fst (next_vals [1, 2] [3, 4] (\<lambda>x. 0) 0 0 0 0.224)) = 50 \<and>
   length (snd (next_vals [1, 2] [3, 4] (\<lambda>x. 0) 0 0 0 0.224)) = 50"
  using output_has_horizon_length[of "[3, 4]" "[1, 2]" "\<lambda>x. 0" 0 0 0 "0.224"]
  by simp

text \<open>
  Claim C8.  The first \<open>k\<close> points of the output, \<open>k\<close> the length of the path tail, are
  the points of the tail, in order and unchanged.
\<close>

theorem tail_carried_over:
  assumes "length prev_y = length prev_x"
  shows "take (length prev_x) (fst (next_vals prev_x prev_y spl ref_x ref_y ref_yaw ref_vel)) = prev_x \<and>
         take (length prev_x) (snd (next_vals prev_x prev_y spl ref_x ref_y ref_yaw ref_vel)) = prev_y"
proof -
  from next_vals_append[OF assms, of spl ref_x ref_y ref_yaw ref_vel]
  obtain pts where
    "next_vals prev_x prev_y spl ref_x ref_y ref_yaw ref_vel = (prev_x @ map fst pts, prev_y @ map snd pts)"
    by blast
  with assms show ?thesis by simp
qed

text \<open>The tail of two points again.\<close>

theorem tail_carried_over_witness:
  "length [3, 4 :: real] = length [1, 2 :: real] \<and>
   take 2 (fst (next_vals [1, 2] [3, 4] (\<lambda>x. 0) 0 0 0 0.224)) = [1, 2] \<and>
   take 2 (snd (next_vals [1, 2] [3, 4] (\<lambda>x. 0) 0 0 0 0.224)) = [3, 4]"
  using tail_carried_over[of "[3, 4]" "[1, 2]" "\<lambda>x. 0" 0 0 0 "0.224"]
  by (simp add: numeral_2_eq_2)

end
